theory Spec2Isabelle
  imports Complex_Main
begin

section \<open>The board (board.h)\<close>

text \<open>
  \<^verbatim>\<open>typedef uint32_t cell; typedef std::array<cell, 4> row; typedef std::array<row, 4> grid;\<close>
  A cell holds a rank: 0 is the empty cell, k stands for the tile 2^k. The rank is modelled as
  a natural number; the operations below only copy, compare and count ranks, except for the
  slide (\<^verbatim>\<open>++tile\<close>, \<^verbatim>\<open>1 << tile\<close>, the \<^verbatim>\<open>int\<close> score) and for the casts
  \<^verbatim>\<open>static_cast<int>\<close> of \<^verbatim>\<open>max_tile_value\<close> and of the pattern index. For the ranks 0..15 of
  the data model this arithmetic stays inside the machine range and the casts change nothing;
  the theorems that depend on it carry that bound as \<open>valid_board\<close>. The two fixed-size arrays are datatypes with four components
  each, so that every value of type \<open>board\<close> is a 4x4 grid. The field \<^verbatim>\<open>attr\<close> of the class
  is not part of the model: none of the operations below reads or writes it, and
  \<^verbatim>\<open>operator==\<close> compares the grid only.
\<close>

type_synonym cell = nat

datatype row = Row cell cell cell cell

datatype board = Board row row row row

text \<open>\<^verbatim>\<open>row[c]\<close> and \<^verbatim>\<open>row[c] = v\<close>; every access in the source has \<open>c < 4\<close>.\<close>

fun row_get :: "row \<Rightarrow> nat \<Rightarrow> cell" where
  "row_get (Row a b c d) i = (if i = 0 then a else if i = 1 then b else if i = 2 then c else d)"

fun row_set :: "row \<Rightarrow> nat \<Rightarrow> cell \<Rightarrow> row" where
  "row_set (Row a b c d) i v =
     (if i = 0 then Row v b c d else if i = 1 then Row a v c d
      else if i = 2 then Row a b v d else Row a b c v)"

text \<open>\<^verbatim>\<open>tile[r]\<close> and \<^verbatim>\<open>tile[r] = row\<close>; every access in the source has \<open>r < 4\<close>.\<close>

fun get_row :: "board \<Rightarrow> nat \<Rightarrow> row" where
  "get_row (Board r0 r1 r2 r3) i =
     (if i = 0 then r0 else if i = 1 then r1 else if i = 2 then r2 else r3)"

fun set_row :: "board \<Rightarrow> nat \<Rightarrow> row \<Rightarrow> board" where
  "set_row (Board r0 r1 r2 r3) i v =
     (if i = 0 then Board v r1 r2 r3 else if i = 1 then Board r0 v r2 r3
      else if i = 2 then Board r0 r1 v r3 else Board r0 r1 r2 v)"

definition tile_get :: "board \<Rightarrow> nat \<Rightarrow> nat \<Rightarrow> cell" where
  "tile_get b r c = row_get (get_row b r) c"

definition tile_set :: "board \<Rightarrow> nat \<Rightarrow> nat \<Rightarrow> cell \<Rightarrow> board" where
  "tile_set b r c v = set_row b r (row_set (get_row b r) c v)"

text \<open>\<^verbatim>\<open>cell& operator ()(unsigned i) { return tile[i / 4][i % 4]; }\<close>\<close>

definition cell_at :: "board \<Rightarrow> nat \<Rightarrow> cell" where
  "cell_at b i = tile_get b (i div 4) (i mod 4)"

definition set_at :: "board \<Rightarrow> nat \<Rightarrow> cell \<Rightarrow> board" where
  "set_at b i v = tile_set b (i div 4) (i mod 4) v"

text \<open>\<^verbatim>\<open>std::swap(tile[r1][c1], tile[r2][c2])\<close>\<close>

definition swap_tile :: "board \<Rightarrow> nat \<Rightarrow> nat \<Rightarrow> nat \<Rightarrow> nat \<Rightarrow> board" where
  "swap_tile b r1 c1 r2 c2 =
     (let x = tile_get b r1 c1; y = tile_get b r2 c2
      in tile_set (tile_set b r1 c1 y) r2 c2 x)"

subsection \<open>Symmetry transforms\<close>

text \<open>
  \<^verbatim>\<open>
  void reflect_horizontal() {
      for (int r = 0; r < 4; r++) {
          std::swap(tile[r][0], tile[r][3]);
          std::swap(tile[r][1], tile[r][2]);
      }
  }
  void reflect_vertical() {
      for (int c = 0; c < 4; c++) {
          std::swap(tile[0][c], tile[3][c]);
          std::swap(tile[1][c], tile[2][c]);
      }
  }
  void transpose() {
      for (int r = 0; r < 4; r++)
          for (int c = r + 1; c < 4; c++)
              std::swap(tile[r][c], tile[c][r]);
  }
  void rotate_clockwise() { transpose(); reflect_horizontal(); }
  void rotate_counterclockwise() { transpose(); reflect_vertical(); }
  \<close>
  A loop over a fixed range is a fold over the list of its indices.
\<close>

definition reflect_horizontal :: "board \<Rightarrow> board" where
  "reflect_horizontal b =
     fold (\<lambda>r b. swap_tile (swap_tile b r 0 r 3) r 1 r 2) [0, 1, 2, 3] b"

definition reflect_vertical :: "board \<Rightarrow> board" where
  "reflect_vertical b =
     fold (\<lambda>c b. swap_tile (swap_tile b 0 c 3 c) 1 c 2 c) [0, 1, 2, 3] b"

definition transpose_b :: "board \<Rightarrow> board" where
  "transpose_b b =
     fold (\<lambda>r b. fold (\<lambda>c b. swap_tile b r c c r) [r + 1 ..< 4] b) [0, 1, 2, 3] b"

definition rotate_clockwise :: "board \<Rightarrow> board" where
  "rotate_clockwise b = reflect_horizontal (transpose_b b)"

definition rotate_counterclockwise :: "board \<Rightarrow> board" where
  "rotate_counterclockwise b = reflect_vertical (transpose_b b)"

subsection \<open>Placing a tile\<close>

text \<open>
  \<^verbatim>\<open>
  reward place(unsigned pos, cell tile) {
      if (pos >= 16 || operator()(pos)) return -1;
      if (tile != 1 && tile != 2) return -1;
      operator()(pos) = tile;
      return 0;
  }
  \<close>
  A member function that mutates the board returns its result together with the board
  after the call.
\<close>

definition place :: "nat \<Rightarrow> cell \<Rightarrow> board \<Rightarrow> int \<times> board" where
  "place pos tile b =
     (if pos \<ge> 16 \<or> cell_at b pos \<noteq> 0 then (- 1, b)
      else if tile \<noteq> 1 \<and> tile \<noteq> 2 then (- 1, b)
      else (0, set_at b pos tile))"

subsection \<open>Sliding\<close>

text \<open>
  \<^verbatim>\<open>
  reward slide_left() {
      board prev = *this;
      reward score = 0;
      for (int r = 0; r < 4; r++) {
          auto& row = tile[r];
          int top = 0, hold = 0;
          for (int c = 0; c < 4; c++) {
              int tile = row[c];
              if (tile == 0) continue;
              row[c] = 0;
              if (hold) {
                  if (tile == hold) {
                      row[top++] = ++tile;
                      score += (1 << tile);
                      hold = 0;
                  } else {
                      row[top++] = hold;
                      hold = tile;
                  }
              } else {
                  hold = tile;
              }
          }
          if (hold) tile[r][top] = hold;
      }
      return (*this != prev) ? score : -1;
  }
  \<close>
  \<open>slide_cell\<close> is one pass of the inner loop body on the loop state
  (row, top, hold, score), where \<open>top_i\<close> stands for \<^verbatim>\<open>top\<close>; \<open>slide_row\<close> is the inner loop with the flush after it;
  \<open>slide_left_loop\<close> is the outer loop.
\<close>

definition slide_cell :: "nat \<Rightarrow> row \<times> nat \<times> nat \<times> int \<Rightarrow> row \<times> nat \<times> nat \<times> int" where
  "slide_cell c st =
     (case st of (row, top_i, hold, score) \<Rightarrow>
        (let tile = row_get row c in
         if tile = 0 then (row, top_i, hold, score)
         else
           (let row = row_set row c 0 in
            if hold \<noteq> 0 then
              (if tile = hold
               then (row_set row top_i (tile + 1), top_i + 1, 0, score + 2 ^ (tile + 1))
               else (row_set row top_i hold, top_i + 1, tile, score))
            else (row, top_i, tile, score))))"

definition slide_row :: "row \<Rightarrow> int \<Rightarrow> row \<times> int" where
  "slide_row row score =
     (case fold slide_cell [0, 1, 2, 3] (row, 0, 0, score) of
        (row, top_i, hold, score) \<Rightarrow>
          (if hold \<noteq> 0 then row_set row top_i hold else row, score))"

definition slide_left_loop :: "board \<Rightarrow> board \<times> int" where
  "slide_left_loop b =
     fold (\<lambda>r st. case st of (b, score) \<Rightarrow>
             (case slide_row (get_row b r) score of (row, score) \<Rightarrow> (set_row b r row, score)))
       [0, 1, 2, 3] (b, 0)"

definition slide_left :: "board \<Rightarrow> int \<times> board" where
  "slide_left b =
     (case slide_left_loop b of (b', score) \<Rightarrow> (if b' \<noteq> b then score else - 1, b'))"

text \<open>
  \<^verbatim>\<open>
  reward slide_right() { reflect_horizontal(); reward score = slide_left(); reflect_horizontal(); return score; }
  reward slide_up()    { rotate_clockwise(); reward score = slide_right(); rotate_counterclockwise(); return score; }
  reward slide_down()  { rotate_clockwise(); reward score = slide_left(); rotate_counterclockwise(); return score; }
  reward slide(unsigned opcode) {
      switch (opcode & 0b11) {
      case 0: return slide_up();
      case 1: return slide_right();
      case 2: return slide_down();
      case 3: return slide_left();
      default: return -1;
      }
  }
  \<close>
\<close>

definition slide_right :: "board \<Rightarrow> int \<times> board" where
  "slide_right b =
     (case slide_left (reflect_horizontal b) of (score, b') \<Rightarrow> (score, reflect_horizontal b'))"

definition slide_up :: "board \<Rightarrow> int \<times> board" where
  "slide_up b =
     (case slide_right (rotate_clockwise b) of (score, b') \<Rightarrow> (score, rotate_counterclockwise b'))"

definition slide_down :: "board \<Rightarrow> int \<times> board" where
  "slide_down b =
     (case slide_left (rotate_clockwise b) of (score, b') \<Rightarrow> (score, rotate_counterclockwise b'))"

definition slide :: "nat \<Rightarrow> board \<Rightarrow> int \<times> board" where
  "slide opcode b =
     (let op = opcode mod 4 in
      if op = 0 then slide_up b
      else if op = 1 then slide_right b
      else if op = 2 then slide_down b
      else if op = 3 then slide_left b
      else (- 1, b))"

subsection \<open>Counting tiles and the danger level\<close>

text \<open>
  \<^verbatim>\<open>
  int count_tile_value(cell value) const {
      int count = 0;
      for (int i = 0; i < 16; i++) if (operator()(i) == value) count++;
      return count;
  }
  int max_tile_value() const {
      int max_val = 0;
      for (int i = 0; i < 16; i++) max_val = std::max(max_val, static_cast<int>(operator()(i)));
      return max_val;
  }
  bool has_two_8192() const {
      int count_8192 = 0;
      for (int i = 0; i < 16; i++) if (operator()(i) == 13) count_8192++;
      return count_8192 >= 2;
  }
  float calculate_danger_level() const {
      int count_8192 = count_tile_value(13);
      int count_4096 = count_tile_value(12);
      if (count_8192 >= 1 && count_4096 >= 2) return 1.0f;
      if (count_8192 >= 1 && count_4096 >= 1) return 0.7f;
      if (count_4096 >= 3) return 0.4f;
      return 0.0f;
  }
  \<close>
  A \<^verbatim>\<open>float\<close> is modelled as a real number, and a float literal as the decimal it is
  written as: rounding is outside the model.
\<close>

definition positions :: "nat list" where
  "positions = [0, 1, 2, 3, 4, 5, 6, 7, 8, 9, 10, 11, 12, 13, 14, 15]"

definition count_tile_value :: "board \<Rightarrow> cell \<Rightarrow> int" where
  "count_tile_value b v =
     fold (\<lambda>i count. if cell_at b i = v then count + 1 else count) positions 0"

definition max_tile_value :: "board \<Rightarrow> int" where
  "max_tile_value b = fold (\<lambda>i max_val. max max_val (int (cell_at b i))) positions 0"

definition has_two_8192 :: "board \<Rightarrow> bool" where
  "has_two_8192 b =
     (fold (\<lambda>i count. if cell_at b i = 13 then count + 1 else count) positions (0::int) \<ge> 2)"

definition calculate_danger_level :: "board \<Rightarrow> real" where
  "calculate_danger_level b =
     (let count_8192 = count_tile_value b 13;
          count_4096 = count_tile_value b 12
      in if count_8192 \<ge> 1 \<and> count_4096 \<ge> 2 then 1.0
         else if count_8192 \<ge> 1 \<and> count_4096 \<ge> 1 then 0.7
         else if count_4096 \<ge> 3 then 0.4
         else 0.0)"

text \<open>The ranks of the data model: every cell is at most 15.\<close>

definition valid_row :: "row \<Rightarrow> bool" where
  "valid_row r = (case r of Row a b c d \<Rightarrow> a \<le> 15 \<and> b \<le> 15 \<and> c \<le> 15 \<and> d \<le> 15)"

definition valid_board :: "board \<Rightarrow> bool" where
  "valid_board b =
     (case b of Board r0 r1 r2 r3 \<Rightarrow> valid_row r0 \<and> valid_row r1 \<and> valid_row r2 \<and> valid_row r3)"

section \<open>The learning agent (agent.h, class strategic_slider)\<close>

text \<open>
  Modelled from the spec: the class \<^verbatim>\<open>weight\<close> of weight.h, which is not among the sources.
  The spec describes a weight table as an ordered, fixed-length sequence of floating-point
  weights addressed by offset; the agent uses \<^verbatim>\<open>size()\<close> and \<^verbatim>\<open>operator[]\<close> only. A table
  is a list of reals, \<^verbatim>\<open>net\<close> a list of tables.
\<close>

type_synonym weight = "real list"

text \<open>
  \<^verbatim>\<open>struct GameStep { board state; action action_taken; board::reward reward;
  board next_state; float evaluation; };\<close>
  The field \<^verbatim>\<open>action_taken\<close> (of the class \<^verbatim>\<open>action\<close>, action.h, not among the sources) is
  never read by the functions modelled here and is left out.
\<close>

record game_step =
  state :: board
  reward :: int
  next_state :: board
  evaluation :: real

text \<open>The members of \<^verbatim>\<open>strategic_slider\<close> and \<^verbatim>\<open>weight_agent\<close> that the learning code uses.\<close>

record learner =
  net :: "weight list"
  alpha :: real
  lambda :: real
  eligibility_traces :: "real list list"
  current_episode :: "game_step list"

text \<open>
  \<^verbatim>\<open>
  static const std::vector<std::vector<int>> patterns = {
      {0, 1, 4, 5}, {2, 3, 6, 7}, {8, 9, 12, 13}, {10, 11, 14, 15} };
  \<close>
\<close>

definition patterns :: "int list list" where
  "patterns = [[0, 1, 4, 5], [2, 3, 6, 7], [8, 9, 12, 13], [10, 11, 14, 15]]"

text \<open>
  The index loop, written twice in the source (\<^verbatim>\<open>evaluate_pattern\<close> and
  \<^verbatim>\<open>update_pattern_weights\<close>) with the same text:
  \<^verbatim>\<open>
  size_t index = 0;
  size_t multiplier = 1;
  for (int pos : pattern) {
      if (pos >= 0 && pos < 16) {
          int tile_value = std::min(static_cast<int>(b(pos)), 15);
          index += tile_value * multiplier;
          multiplier *= 16;
      }
      if (index >= weights.size()) break;
  }
  \<close>
  The argument \<open>sz\<close> is \<^verbatim>\<open>weights.size()\<close>.
\<close>

fun pattern_index :: "board \<Rightarrow> nat \<Rightarrow> int list \<Rightarrow> nat \<Rightarrow> nat \<Rightarrow> nat" where
  "pattern_index b sz [] index multiplier = index"
| "pattern_index b sz (pos # ps) index multiplier =
     (let tile_value = min (cell_at b (nat pos)) 15;
          index' = (if pos \<ge> 0 \<and> pos < 16 then index + tile_value * multiplier else index);
          multiplier' = (if pos \<ge> 0 \<and> pos < 16 then multiplier * 16 else multiplier)
      in if index' \<ge> sz then index' else pattern_index b sz ps index' multiplier')"

text \<open>
  \<^verbatim>\<open>
  float evaluate_pattern(const board& b, const std::vector<int>& pattern, const weight& weights) {
      ... the index loop ...
      if (index < weights.sz()) return weights[index];
      return 0.0f;
  }
  \<close>
\<close>

definition evaluate_pattern :: "board \<Rightarrow> int list \<Rightarrow> weight \<Rightarrow> real" where
  "evaluate_pattern b pattern weights =
     (let index = pattern_index b (length weights) pattern 0 1
      in if index < length weights then weights ! index else 0)"

text \<open>
  The agent's own transforms, on the one-dimensional index:
  \<^verbatim>\<open>
  void mirror_horizontal(board& b) {
      for (int r = 0; r < 4; r++) {
          std::swap(b(r*4 + 0), b(r*4 + 3));
          std::swap(b(r*4 + 1), b(r*4 + 2));
      }
  }
  void mirror_vertical(board& b) {
      for (int c = 0; c < 4; c++) {
          std::swap(b(0*4 + c), b(3*4 + c));
          std::swap(b(1*4 + c), b(2*4 + c));
      }
  }
  void transpose_board(board& b) {
      for (int r = 0; r < 4; r++)
          for (int c = r + 1; c < 4; c++)
              std::swap(b(r*4 + c), b(c*4 + r));
  }
  \<close>
\<close>

definition swap_at :: "board \<Rightarrow> nat \<Rightarrow> nat \<Rightarrow> board" where
  "swap_at b i j = (let x = cell_at b i; y = cell_at b j in set_at (set_at b i y) j x)"

definition mirror_horizontal :: "board \<Rightarrow> board" where
  "mirror_horizontal b =
     fold (\<lambda>r b. swap_at (swap_at b (r * 4 + 0) (r * 4 + 3)) (r * 4 + 1) (r * 4 + 2))
       [0, 1, 2, 3] b"

definition mirror_vertical :: "board \<Rightarrow> board" where
  "mirror_vertical b =
     fold (\<lambda>c b. swap_at (swap_at b (0 * 4 + c) (3 * 4 + c)) (1 * 4 + c) (2 * 4 + c))
       [0, 1, 2, 3] b"

definition transpose_board :: "board \<Rightarrow> board" where
  "transpose_board b =
     fold (\<lambda>r b. fold (\<lambda>c b. swap_at b (r * 4 + c) (c * 4 + r)) [r + 1 ..< 4] b)
       [0, 1, 2, 3] b"

text \<open>
  \<^verbatim>\<open>
  float evaluate_isomorphic_patterns(const board& b, const std::vector<int>& pattern, const weight& weights) {
      float total_value = 0.0f;
      board mirrored_h = b;   mirror_horizontal(mirrored_h);
      total_value += evaluate_pattern(mirrored_h, pattern, weights);
      board mirrored_v = b;   mirror_vertical(mirrored_v);
      total_value += evaluate_pattern(mirrored_v, pattern, weights);
      board transposed = b;   transpose_board(transposed);
      total_value += evaluate_pattern(transposed, pattern, weights);
      mirror_horizontal(transposed);
      total_value += evaluate_pattern(transposed, pattern, weights);
      mirror_vertical(transposed);
      total_value += evaluate_pattern(transposed, pattern, weights);
      transpose_board(transposed);
      total_value += evaluate_pattern(transposed, pattern, weights);
      mirror_horizontal(transposed);
      total_value += evaluate_pattern(transposed, pattern, weights);
      return total_value;
  }
  \<close>
\<close>

definition evaluate_isomorphic_patterns :: "board \<Rightarrow> int list \<Rightarrow> weight \<Rightarrow> real" where
  "evaluate_isomorphic_patterns b pattern weights =
     (let total_value = 0;
          mirrored_h = mirror_horizontal b;
          total_value = total_value + evaluate_pattern mirrored_h pattern weights;
          mirrored_v = mirror_vertical b;
          total_value = total_value + evaluate_pattern mirrored_v pattern weights;
          transposed = transpose_board b;
          total_value = total_value + evaluate_pattern transposed pattern weights;
          transposed = mirror_horizontal transposed;
          total_value = total_value + evaluate_pattern transposed pattern weights;
          transposed = mirror_vertical transposed;
          total_value = total_value + evaluate_pattern transposed pattern weights;
          transposed = transpose_board transposed;
          total_value = total_value + evaluate_pattern transposed pattern weights;
          transposed = mirror_horizontal transposed;
          total_value = total_value + evaluate_pattern transposed pattern weights
      in total_value)"

text \<open>
  \<^verbatim>\<open>
  float evaluate_board(const board& b) {
      if (net.empty()) return 0.0f;
      float value = 0.0f;
      for (size_t i = 0; i < std::min(patterns.size(), net.size()); i++) {
          if (net[i].size() == 0) continue;
          value += evaluate_pattern(b, patterns[i], net[i]);
          value += evaluate_isomorphic_patterns(b, patterns[i], net[i]);
      }
      return value;
  }
  \<close>
\<close>

definition evaluate_board :: "weight list \<Rightarrow> board \<Rightarrow> real" where
  "evaluate_board nt b =
     (if nt = [] then 0
      else fold (\<lambda>i value.
                   if length (nt ! i) = 0 then value
                   else (value + evaluate_pattern b (patterns ! i) (nt ! i))
                        + evaluate_isomorphic_patterns b (patterns ! i) (nt ! i))
             [0 ..< min (length patterns) (length nt)] 0)"

text \<open>
  The boards that \<^verbatim>\<open>evaluate_board\<close> hands to \<^verbatim>\<open>evaluate_pattern\<close> for one pattern, in the
  order of the calls: the board itself, then the seven boards of
  \<^verbatim>\<open>evaluate_isomorphic_patterns\<close>.
\<close>

definition evaluated_variants :: "board \<Rightarrow> board list" where
  "evaluated_variants b =
     (let mirrored_h = mirror_horizontal b;
          mirrored_v = mirror_vertical b;
          t1 = transpose_board b;
          t2 = mirror_horizontal t1;
          t3 = mirror_vertical t2;
          t4 = transpose_board t3;
          t5 = mirror_horizontal t4
      in [b, mirrored_h, mirrored_v, t1, t2, t3, t4, t5])"

subsection \<open>The weight update\<close>

text \<open>
  \<^verbatim>\<open>
  void update_pattern_weights(const board& state, const std::vector<int>& pattern,
                              size_t net_index, float td_error) {
      ... the index loop, on net[net_index].size() ...
      if (index < net[net_index].size() && index < eligibility_traces[net_index].size()) {
          eligibility_traces[net_index][index] = 1.0f;
          net[net_index][index] += alpha * td_error * eligibility_traces[net_index][index];
      }
  }
  \<close>
\<close>

definition update_pattern_weights :: "board \<Rightarrow> int list \<Rightarrow> nat \<Rightarrow> real \<Rightarrow> learner \<Rightarrow> learner" where
  "update_pattern_weights st pattern net_index td_error ag =
     (let index = pattern_index st (length (net ag ! net_index)) pattern 0 1
      in if index < length (net ag ! net_index) \<and> index < length (eligibility_traces ag ! net_index)
         then
           (let ag1 = ag\<lparr>eligibility_traces :=
                         (eligibility_traces ag)[net_index := (eligibility_traces ag ! net_index)[index := 1.0]]\<rparr>
            in ag1\<lparr>net :=
                     (net ag1)[net_index := (net ag1 ! net_index)[index :=
                        net ag1 ! net_index ! index
                        + alpha ag1 * td_error * (eligibility_traces ag1 ! net_index ! index)]]\<rparr>)
         else ag)"

text \<open>
  \<^verbatim>\<open>
  void update_isomorphic_pattern_weights(const board& state, const std::vector<int>& pattern,
                                         size_t net_index, float td_error) {
      board mirrored = state;
      mirror_horizontal(mirrored);
      update_pattern_weights(mirrored, pattern, net_index, td_error * 0.125f);
      board transposed = state;
      transpose_board(transposed);
      update_pattern_weights(transposed, pattern, net_index, td_error * 0.125f);
  }
  \<close>
\<close>

definition update_isomorphic_pattern_weights ::
  "board \<Rightarrow> int list \<Rightarrow> nat \<Rightarrow> real \<Rightarrow> learner \<Rightarrow> learner" where
  "update_isomorphic_pattern_weights st pattern net_index td_error ag =
     (let mirrored = mirror_horizontal st;
          ag = update_pattern_weights mirrored pattern net_index (td_error * 0.125) ag;
          transposed = transpose_board st
      in update_pattern_weights transposed pattern net_index (td_error * 0.125) ag)"

text \<open>
  \<^verbatim>\<open>
  void update_weights_with_td_error(const board& state, float td_error) {
      if (net.empty() || eligibility_traces.empty()) return;
      for (size_t i = 0; i < std::min(patterns.size(), net.size()); i++) {
          if (net[i].size() == 0) continue;
          update_pattern_weights(state, patterns[i], i, td_error);
          update_isomorphic_pattern_weights(state, patterns[i], i, td_error);
      }
  }
  \<close>
\<close>

definition update_weights_with_td_error :: "board \<Rightarrow> real \<Rightarrow> learner \<Rightarrow> learner" where
  "update_weights_with_td_error st td_error ag =
     (if net ag = [] \<or> eligibility_traces ag = [] then ag
      else fold (\<lambda>i ag.
                   if length (net ag ! i) = 0 then ag
                   else update_isomorphic_pattern_weights st (patterns ! i) i td_error
                          (update_pattern_weights st (patterns ! i) i td_error ag))
             [0 ..< min (length patterns) (length (net ag))] ag)"

subsection \<open>The update at the end of an episode\<close>

text \<open>
  \<^verbatim>\<open>
  float calculate_final_reward(const std::string& flag) {
      float final_reward = 0.0f;
      if (flag == "win") {
          final_reward = -50000.0f;
      } else if (flag == "lose") {
          if (!current_episode.empty()) {
              board final_state = current_episode.back().next_state;
              int count_8192 = final_state.count_tile_value(13);
              if (count_8192 == 1) {
                  final_reward = 10000.0f;
              } else if (count_8192 == 0 && final_state.max_tile_value() >= 12) {
                  final_reward = 5000.0f;
              } else {
                  final_reward = 1000.0f;
              }
          }
      }
      return final_reward;
  }
  \<close>
\<close>

definition calculate_final_reward :: "string \<Rightarrow> game_step list \<Rightarrow> real" where
  "calculate_final_reward flag episode =
     (if flag = ''win'' then - 50000
      else if flag = ''lose'' then
        (if episode \<noteq> [] then
           (let final_state = next_state (last episode);
                count_8192 = count_tile_value final_state 13
            in if count_8192 = 1 then 10000
               else if count_8192 = 0 \<and> max_tile_value final_state \<ge> 12 then 5000
               else 1000)
         else 0)
      else 0)"

text \<open>
  \<^verbatim>\<open>
  void perform_final_td_update(const std::string& flag) {
      if (current_episode.empty()) return;
      GameStep& last_step = current_episode.back();
      float final_reward = calculate_final_reward(flag);
      float td_error = final_reward - last_step.evaluation;
      for (int i = current_episode.size() - 1; i >= 0; i--) {
          GameStep& step = current_episode[i];
          float discounted_error = td_error * std::pow(lambda, current_episode.size() - 1 - i);
          update_weights_with_td_error(step.state, discounted_error);
          if (i > 0) {
              td_error = step.reward + lambda * td_error;
          }
      }
      ...
  }
  \<close>
  The loop runs \<open>i\<close> downwards; \<open>final_td_loop\<close> takes \<open>i + 1\<close> as its counter, so that the
  loop ends at 0. The update called in the body is a parameter \<open>upd\<close> acting on a state
  \<open>'s\<close>: the agent's update changes neither \<^verbatim>\<open>lambda\<close> nor \<^verbatim>\<open>current_episode\<close>, which the loop
  reads, so both are arguments here. \<open>perform_final_td_update\<close> runs the loop with the agent's
  update on the agent; \<open>final_update_calls\<close> runs the same loop with an update that only
  records its arguments, and so lists the calls of \<^verbatim>\<open>update_weights_with_td_error\<close> in order.
\<close>

fun final_td_loop ::
  "(board \<Rightarrow> real \<Rightarrow> 's \<Rightarrow> 's) \<Rightarrow> real \<Rightarrow> game_step list \<Rightarrow> nat \<Rightarrow> real \<Rightarrow> 's \<Rightarrow> 's" where
  "final_td_loop upd lam episode 0 td_error s = s"
| "final_td_loop upd lam episode (Suc i) td_error s =
     (let step = episode ! i;
          discounted_error = td_error * lam ^ (length episode - 1 - i);
          s = upd (state step) discounted_error s;
          td_error = (if i > 0 then real_of_int (reward step) + lam * td_error else td_error)
      in final_td_loop upd lam episode i td_error s)"

definition perform_final_td_update :: "string \<Rightarrow> learner \<Rightarrow> learner" where
  "perform_final_td_update flag ag =
     (if current_episode ag = [] then ag
      else
        (let last_step = last (current_episode ag);
             final_reward = calculate_final_reward flag (current_episode ag);
             td_error = final_reward - evaluation last_step
         in final_td_loop update_weights_with_td_error (lambda ag) (current_episode ag)
              (length (current_episode ag)) td_error ag))"

definition final_update_calls :: "string \<Rightarrow> real \<Rightarrow> game_step list \<Rightarrow> (board \<times> real) list" where
  "final_update_calls flag lam episode =
     (if episode = [] then []
      else
        (let last_step = last episode;
             final_reward = calculate_final_reward flag episode;
             td_error = final_reward - evaluation last_step
         in final_td_loop (\<lambda>st e calls. calls @ [(st, e)]) lam episode
              (length episode) td_error []))"

section \<open>The specification's descriptions\<close>

text \<open>
  The definitions of this section are not translations of code: each follows a sentence of
  the specification, and the theorems compare it with the translation of the code above.
\<close>

subsection \<open>Left-compaction with merging of adjacent equal ranks\<close>

text \<open>
  ``Scan left to right, hold a pending tile; when the next tile equals the held one, merge
  (increment rank, add 2^(new rank) to score, clear hold); when different, flush the held tile
  and hold the new one; trailing held tile flushes at row end.'' Empty cells are passed over.
  The result is the list of flushed tiles and the score.
\<close>

fun compact_merge :: "cell option \<Rightarrow> cell list \<Rightarrow> cell list \<times> int" where
  "compact_merge None [] = ([], 0)"
| "compact_merge (Some h) [] = ([h], 0)"
| "compact_merge hold (t # ts) =
     (if t = 0 then compact_merge hold ts
      else case hold of
        None \<Rightarrow> compact_merge (Some t) ts
      | Some h \<Rightarrow>
          if t = h
          then (case compact_merge None ts of (out, s) \<Rightarrow> ((t + 1) # out, 2 ^ (t + 1) + s))
          else (case compact_merge (Some t) ts of (out, s) \<Rightarrow> (h # out, s)))"

definition row_of_list :: "cell list \<Rightarrow> row" where
  "row_of_list xs = Row (xs ! 0) (xs ! 1) (xs ! 2) (xs ! 3)"

definition list_of_row :: "row \<Rightarrow> cell list" where
  "list_of_row r = (case r of Row a b c d \<Rightarrow> [a, b, c, d])"

text \<open>The compacted row: the flushed tiles, then empty cells up to the width of the row.\<close>

definition spec_slide_row :: "row \<Rightarrow> row \<times> int" where
  "spec_slide_row r =
     (case compact_merge None (list_of_row r) of
        (out, s) \<Rightarrow> (row_of_list (out @ [0, 0, 0, 0]), s))"

text \<open>
  The four lines of a board that a slide compacts, each read from the edge the tiles move
  to: rows from the left (opcode 3), rows from the right (1), columns from the top (0),
  columns from the bottom (2). The total merge score of a slide is the sum of the scores
  of its lines.
\<close>

definition rows_of :: "board \<Rightarrow> cell list list" where
  "rows_of b = map (\<lambda>r. map (\<lambda>c. tile_get b r c) [0, 1, 2, 3]) [0, 1, 2, 3]"

definition columns_of :: "board \<Rightarrow> cell list list" where
  "columns_of b = map (\<lambda>c. map (\<lambda>r. tile_get b r c) [0, 1, 2, 3]) [0, 1, 2, 3]"

definition lines_toward :: "nat \<Rightarrow> board \<Rightarrow> cell list list" where
  "lines_toward op b =
     (if op = 0 then columns_of b
      else if op = 1 then map rev (rows_of b)
      else if op = 2 then map rev (columns_of b)
      else rows_of b)"

definition merge_score :: "nat \<Rightarrow> board \<Rightarrow> int" where
  "merge_score op b = sum_list (map (\<lambda>l. snd (compact_merge None l)) (lines_toward op b))"

subsection \<open>Counting cells\<close>

definition nonzero_cells :: "board \<Rightarrow> nat" where
  "nonzero_cells b = length (filter (\<lambda>i. cell_at b i \<noteq> 0) positions)"

definition nonzero_in_row :: "row \<Rightarrow> nat" where
  "nonzero_in_row r = length (filter (\<lambda>x. x \<noteq> 0) (list_of_row r))"

definition changed_cells :: "board \<Rightarrow> board \<Rightarrow> nat list" where
  "changed_cells b b' = filter (\<lambda>i. cell_at b i \<noteq> cell_at b' i) positions"

subsection \<open>The dihedral group of the square\<close>

text \<open>
  ``Identity, 3 rotations, and each combined with a mirror'', with the rotation and the
  mirror of board.h.
\<close>

definition dihedral_variants :: "board \<Rightarrow> board list" where
  "dihedral_variants b =
     (let r1 = rotate_clockwise b; r2 = rotate_clockwise r1; r3 = rotate_clockwise r2
      in [b, r1, r2, r3,
          reflect_horizontal b, reflect_horizontal r1, reflect_horizontal r2, reflect_horizontal r3])"

text \<open>The sum of the table entries over these eight boards, for the patterns that have a table.\<close>

definition dihedral_evaluate :: "weight list \<Rightarrow> board \<Rightarrow> real" where
  "dihedral_evaluate nt b =
     sum_list (map (\<lambda>i. sum_list (map (\<lambda>v. evaluate_pattern v (patterns ! i) (nt ! i))
                                    (dihedral_variants b)))
                 [0 ..< min (length patterns) (length nt)])"

subsection \<open>The feature index and the weight update\<close>






subsection \<open>The carried error of the final update\<close>

text \<open>
  The error term carried backwards: at the last step (distance 0 from the end) it is the
  initial error; the term for the step at distance \<open>d + 1\<close> is the reward of the step at
  distance \<open>d\<close> plus lambda times the term for that step.
\<close>

fun carried_error :: "real \<Rightarrow> game_step list \<Rightarrow> real \<Rightarrow> nat \<Rightarrow> real" where
  "carried_error lam episode e0 0 = e0"
| "carried_error lam episode e0 (Suc d) =
     real_of_int (reward (episode ! (length episode - 1 - d))) + lam * carried_error lam episode e0 d"

section \<open>Concrete inputs\<close>

text \<open>A board with a single tile of rank 1 at position 1: no symmetry of the square fixes it.\<close>

definition skew_board :: board where
  "skew_board = Board (Row 0 1 0 0) (Row 0 0 0 0) (Row 0 0 0 0) (Row 0 0 0 0)"

text \<open>
  Four tables of 65536 weights (\<^verbatim>\<open>init=65536,65536,65536,65536\<close>), all zero but two entries
  of the third table.
\<close>

definition probe_net :: "weight list" where
  "probe_net = [replicate 65536 0, replicate 65536 0,
                (replicate 65536 0)[1 := 1, 4096 := 10], replicate 65536 0]"

text \<open>
  A trajectory of two steps, as \<^verbatim>\<open>select_best_action\<close> records them with all weights zero: a
  slide up without a merge, then (after a tile was placed at position 1) a slide to the
  right that merges two tiles of rank 1 for a reward of 4.
\<close>

definition two_steps :: "game_step list" where
  "two_steps =
     [\<lparr>state = Board (Row 1 0 0 0) (Row 0 0 0 0) (Row 0 0 0 0) (Row 0 0 0 1), reward = 0,
       next_state = Board (Row 1 0 0 1) (Row 0 0 0 0) (Row 0 0 0 0) (Row 0 0 0 0),
       evaluation = 0\<rparr>,
      \<lparr>state = Board (Row 1 1 0 1) (Row 0 0 0 0) (Row 0 0 0 0) (Row 0 0 0 0), reward = 4,
       next_state = Board (Row 0 0 1 2) (Row 0 0 0 0) (Row 0 0 0 0) (Row 0 0 0 0),
       evaluation = 0\<rparr>]"

text \<open>A learner with four zero tables of 65536 weights, at the end of that trajectory.\<close>

definition fresh_learner :: learner where
  "fresh_learner =
     \<lparr>net = [replicate 65536 0, replicate 65536 0, replicate 65536 0, replicate 65536 0],
      alpha = 1 / 10,
      lambda = 1 / 2,
      eligibility_traces =
        [replicate 65536 0, replicate 65536 0, replicate 65536 0, replicate 65536 0],
      current_episode = two_steps\<rparr>"



section \<open>Closed forms of the transforms\<close>

lemma reflect_horizontal_Board:
  "reflect_horizontal
     (Board (Row a0 a1 a2 a3) (Row b0 b1 b2 b3) (Row c0 c1 c2 c3) (Row d0 d1 d2 d3)) =
   Board (Row a3 a2 a1 a0) (Row b3 b2 b1 b0) (Row c3 c2 c1 c0) (Row d3 d2 d1 d0)"
  by (simp add: reflect_horizontal_def swap_tile_def tile_get_def tile_set_def)

lemma reflect_vertical_Board:
  "reflect_vertical
     (Board (Row a0 a1 a2 a3) (Row b0 b1 b2 b3) (Row c0 c1 c2 c3) (Row d0 d1 d2 d3)) =
   Board (Row d0 d1 d2 d3) (Row c0 c1 c2 c3) (Row b0 b1 b2 b3) (Row a0 a1 a2 a3)"
  by (simp add: reflect_vertical_def swap_tile_def tile_get_def tile_set_def)

lemma transpose_b_Board:
  "transpose_b
     (Board (Row a0 a1 a2 a3) (Row b0 b1 b2 b3) (Row c0 c1 c2 c3) (Row d0 d1 d2 d3)) =
   Board (Row a0 b0 c0 d0) (Row a1 b1 c1 d1) (Row a2 b2 c2 d2) (Row a3 b3 c3 d3)"
  by (simp add: transpose_b_def swap_tile_def tile_get_def tile_set_def upt_rec)

section \<open>Transforms: claim C8\<close>

lemma board_exhaust:
  obtains a0 a1 a2 a3 b0 b1 b2 b3 c0 c1 c2 c3 d0 d1 d2 d3 where
    "b = Board (Row a0 a1 a2 a3) (Row b0 b1 b2 b3) (Row c0 c1 c2 c3) (Row d0 d1 d2 d3)"
  by (metis board.exhaust row.exhaust)

text \<open>
  Claim C8. For every board, four clockwise rotations give the board back, two horizontal
  reflections give the board back, and the clockwise rotation is the transpose followed by
  the horizontal reflection.
\<close>

theorem transforms_algebra:
  "rotate_clockwise (rotate_clockwise (rotate_clockwise (rotate_clockwise b))) = b \<and>
   reflect_horizontal (reflect_horizontal b) = b \<and>
   rotate_clockwise b = reflect_horizontal (transpose_b b)"
  by (rule board_exhaust [of b])
     (simp add: rotate_clockwise_def reflect_horizontal_Board transpose_b_Board)

section \<open>Placing: claim C10\<close>

text \<open>
  Claim C10. For every board and every position of 16 or more, \<open>place\<close> returns the illegal
  sentinel -1 and leaves the board as it was, whatever the rank.
\<close>

theorem place_out_of_range:
  "pos \<ge> 16 \<Longrightarrow> place pos tile b = (- 1, b)"
  by (simp add: place_def)

theorem place_out_of_range_witness:
  "(16::nat) \<ge> 16 \<and>
   place 16 1 (Board (Row 0 0 0 0) (Row 0 2 0 0) (Row 0 0 0 0) (Row 0 0 0 0)) =
     (- 1, Board (Row 0 0 0 0) (Row 0 2 0 0) (Row 0 0 0 0) (Row 0 0 0 0))"
  using place_out_of_range [of 16 1 "Board (Row 0 0 0 0) (Row 0 2 0 0) (Row 0 0 0 0) (Row 0 0 0 0)"]
  by simp

section \<open>Counting and the danger level: claim C7\<close>

lemma cell_at_Board:
  "map (cell_at (Board (Row a0 a1 a2 a3) (Row b0 b1 b2 b3) (Row c0 c1 c2 c3) (Row d0 d1 d2 d3)))
     positions =
   [a0, a1, a2, a3, b0, b1, b2, b3, c0, c1, c2, c3, d0, d1, d2, d3]"
  by (simp add: positions_def cell_at_def tile_get_def)

lemma count_tile_value_filter:
  "count_tile_value b v = int (length (filter (\<lambda>i. cell_at b i = v) positions))"
proof -
  have "fold (\<lambda>i count. if cell_at b i = v then count + 1 else count) xs k =
        k + int (length (filter (\<lambda>i. cell_at b i = v) xs))" for xs and k :: int
    by (induction xs arbitrary: k) auto
  then show ?thesis by (simp add: count_tile_value_def)
qed

lemma max_tile_value_ge:
  "(max_tile_value b \<ge> k) = (k \<le> 0 \<or> (\<exists>i \<in> set positions. int (cell_at b i) \<ge> k))"
proof -
  have "(fold (\<lambda>i max_val. max max_val (int (cell_at b i))) xs m \<ge> k) =
        (k \<le> m \<or> (\<exists>i \<in> set xs. int (cell_at b i) \<ge> k))" for xs and m :: int
    by (induction xs arbitrary: m) auto
  then show ?thesis by (simp add: max_tile_value_def)
qed

text \<open>
  Claim C7. For every board the danger level is one of 0.0, 0.4, 0.7 and 1.0; two boards with
  the same number of rank-13 cells and the same number of rank-12 cells have the same danger
  level; a board with one rank-13 cell and no rank-12 cell has danger level 0.0, and so has a
  board with two rank-13 cells and no rank-12 cell.
\<close>

theorem danger_level_buckets:
  "calculate_danger_level b \<in> {0, 0.4, 0.7, 1} \<and>
   (count_tile_value b 13 = count_tile_value b' 13 \<and>
    count_tile_value b 12 = count_tile_value b' 12
      \<longrightarrow> calculate_danger_level b = calculate_danger_level b') \<and>
   (count_tile_value b 13 = 1 \<and> count_tile_value b 12 = 0 \<longrightarrow> calculate_danger_level b = 0) \<and>
   (count_tile_value b 13 = 2 \<and> count_tile_value b 12 = 0 \<longrightarrow> calculate_danger_level b = 0)"
  by (simp add: calculate_danger_level_def Let_def)

theorem danger_level_buckets_witness:
  "count_tile_value (Board (Row 13 0 0 0) (Row 0 2 0 0) (Row 0 0 0 0) (Row 0 0 0 0)) 13 = 1 \<and>
   count_tile_value (Board (Row 13 0 0 0) (Row 0 2 0 0) (Row 0 0 0 0) (Row 0 0 0 0)) 12 = 0 \<and>
   calculate_danger_level (Board (Row 13 0 0 0) (Row 0 2 0 0) (Row 0 0 0 0) (Row 0 0 0 0)) = 0 \<and>
   count_tile_value (Board (Row 13 0 0 0) (Row 0 2 0 0) (Row 0 0 0 13) (Row 0 0 0 0)) 13 = 2 \<and>
   count_tile_value (Board (Row 13 0 0 0) (Row 0 2 0 0) (Row 0 0 0 13) (Row 0 0 0 0)) 12 = 0 \<and>
   calculate_danger_level (Board (Row 13 0 0 0) (Row 0 2 0 0) (Row 0 0 0 13) (Row 0 0 0 0)) = 0 \<and>
   count_tile_value (Board (Row 0 0 0 0) (Row 0 0 0 0) (Row 0 5 0 0) (Row 0 0 13 0)) 13 = 1 \<and>
   count_tile_value (Board (Row 0 0 0 0) (Row 0 0 0 0) (Row 0 5 0 0) (Row 0 0 13 0)) 12 = 0 \<and>
   calculate_danger_level (Board (Row 13 0 0 0) (Row 0 2 0 0) (Row 0 0 0 0) (Row 0 0 0 0)) =
   calculate_danger_level (Board (Row 0 0 0 0) (Row 0 0 0 0) (Row 0 5 0 0) (Row 0 0 13 0))"
  using
    danger_level_buckets [of "Board (Row 13 0 0 0) (Row 0 2 0 0) (Row 0 0 0 0) (Row 0 0 0 0)"
                             "Board (Row 0 0 0 0) (Row 0 0 0 0) (Row 0 5 0 0) (Row 0 0 13 0)"]
    danger_level_buckets [of "Board (Row 13 0 0 0) (Row 0 2 0 0) (Row 0 0 0 13) (Row 0 0 0 0)"
                             "Board (Row 13 0 0 0) (Row 0 2 0 0) (Row 0 0 0 13) (Row 0 0 0 0)"]
  by (simp add: count_tile_value_def positions_def cell_at_def tile_get_def)

section \<open>The final reward: claim C6\<close>

lemma positions_upt: "positions = [0..<16]"
  by (simp add: positions_def upt_rec)

lemma count_card: "length (filter P positions) = card {i. i < 16 \<and> P i}"
proof -
  have "distinct positions" by (simp add: positions_upt)
  then have "length (filter P positions) = card ({i. P i} \<inter> set positions)"
    by (rule distinct_length_filter)
  also have "{i. P i} \<inter> set positions = {i. i < 16 \<and> P i}"
    by (auto simp: positions_upt)
  finally show ?thesis .
qed

lemma max_tile_value_ge_12: "(max_tile_value b \<ge> 12) = (\<exists>i<16. cell_at b i \<ge> 12)"
  by (auto simp: max_tile_value_ge positions_upt)

text \<open>
  Claim C6. With a non-empty trajectory whose final state has ranks of the data model (where
  the cast \<^verbatim>\<open>static_cast<int>\<close> of \<^verbatim>\<open>max_tile_value\<close> changes nothing), the final reward is
  -50000 for the tag "win"; for
  the tag "lose" it is 10000 when exactly one cell of the final state (the last step's next
  state) has rank 13, 5000 when no cell has rank 13 and some cell has rank 12 or more, and
  1000 otherwise; for every other tag it is 0. The number of rank-13 cells and the maximum
  are stated on the cells themselves, not through the loops that compute them.
\<close>

theorem final_reward_tiers:
  "episode \<noteq> [] \<Longrightarrow> valid_board (next_state (last episode)) \<Longrightarrow>
   calculate_final_reward flag episode =
     (let final_state = next_state (last episode);
          n13 = card {i. i < 16 \<and> cell_at final_state i = 13}
      in if flag = ''win'' then - 50000
         else if flag = ''lose'' then
           (if n13 = 1 then 10000
            else if n13 = 0 \<and> (\<exists>i<16. cell_at final_state i \<ge> 12) then 5000
            else 1000)
         else 0)"
  by (simp add: calculate_final_reward_def Let_def count_tile_value_filter max_tile_value_ge_12
        count_card)

theorem final_reward_tiers_witness:
  "[\<lparr>state = Board (Row 0 1 0 0) (Row 0 0 0 0) (Row 0 0 0 13) (Row 0 0 0 0), reward = 0,
      next_state = Board (Row 1 0 0 0) (Row 0 0 0 0) (Row 13 0 0 0) (Row 0 0 0 0),
      evaluation = 0\<rparr>] \<noteq> [] \<and>
   valid_board (Board (Row 1 0 0 0) (Row 0 0 0 0) (Row 13 0 0 0) (Row 0 0 0 0)) \<and>
   calculate_final_reward ''win''
     [\<lparr>state = Board (Row 0 1 0 0) (Row 0 0 0 0) (Row 0 0 0 13) (Row 0 0 0 0), reward = 0,
       next_state = Board (Row 1 0 0 0) (Row 0 0 0 0) (Row 13 0 0 0) (Row 0 0 0 0),
       evaluation = 0\<rparr>] = - 50000 \<and>
   calculate_final_reward ''lose''
     [\<lparr>state = Board (Row 0 1 0 0) (Row 0 0 0 0) (Row 0 0 0 13) (Row 0 0 0 0), reward = 0,
       next_state = Board (Row 1 0 0 0) (Row 0 0 0 0) (Row 13 0 0 0) (Row 0 0 0 0),
       evaluation = 0\<rparr>] = 10000 \<and>
   calculate_final_reward ''draw''
     [\<lparr>state = Board (Row 0 1 0 0) (Row 0 0 0 0) (Row 0 0 0 13) (Row 0 0 0 0), reward = 0,
       next_state = Board (Row 1 0 0 0) (Row 0 0 0 0) (Row 13 0 0 0) (Row 0 0 0 0),
       evaluation = 0\<rparr>] = 0"
proof -
  let ?b = "Board (Row 1 0 0 0) (Row 0 0 0 0) (Row 13 0 0 0) (Row 0 0 0 0)"
  let ?ep = "[\<lparr>state = Board (Row 0 1 0 0) (Row 0 0 0 0) (Row 0 0 0 13) (Row 0 0 0 0),
               reward = 0, next_state = ?b, evaluation = 0\<rparr>]"
  have ne: "?ep \<noteq> []" by simp
  have v: "valid_board (next_state (last ?ep))" by (simp add: valid_board_def valid_row_def)
  have "length (filter (\<lambda>i. cell_at ?b i = 13) positions) = 1"
    by (simp add: positions_def cell_at_def tile_get_def)
  then have n13: "card {i. i < 16 \<and> cell_at ?b i = 13} = 1"
    by (simp only: count_card)
  show ?thesis
    using final_reward_tiers [OF ne v, of "''win''"] final_reward_tiers [OF ne v, of "''lose''"]
      final_reward_tiers [OF ne v, of "''draw''"] n13 v
    by (simp add: Let_def)
qed

section \<open>Sliding to the left: claim C3\<close>

lemma slide_row_spec: "slide_row r s = (fst (spec_slide_row r), s + snd (spec_slide_row r))"
  by (cases r)
     (simp add: slide_row_def slide_cell_def spec_slide_row_def row_of_list_def list_of_row_def
        Let_def)

lemma slide_left_loop_Board:
  "slide_left_loop (Board r0 r1 r2 r3) =
     (Board (fst (spec_slide_row r0)) (fst (spec_slide_row r1))
            (fst (spec_slide_row r2)) (fst (spec_slide_row r3)),
      snd (spec_slide_row r0) + snd (spec_slide_row r1)
      + snd (spec_slide_row r2) + snd (spec_slide_row r3))"
  by (simp add: slide_left_loop_def slide_row_spec)

lemma compact_merge_nonneg: "snd (compact_merge h l) \<ge> 0"
  by (induction h l rule: compact_merge.induct) (auto split: prod.splits option.splits)

lemma spec_slide_row_nonneg: "snd (spec_slide_row r) \<ge> 0"
  using compact_merge_nonneg [of None "list_of_row r"]
  by (cases "compact_merge None (list_of_row r)") (simp add: spec_slide_row_def)

lemma merge_score_left:
  "merge_score 3 (Board r0 r1 r2 r3) =
     snd (spec_slide_row r0) + snd (spec_slide_row r1)
     + snd (spec_slide_row r2) + snd (spec_slide_row r3)"
  by (cases r0; cases r1; cases r2; cases r3)
     (simp add: merge_score_def lines_toward_def rows_of_def tile_get_def spec_slide_row_def
        list_of_row_def split_beta del: compact_merge.simps)

lemma slide_left_props:
  "(fst (slide_left b) = - 1 \<longleftrightarrow> snd (slide_left b) = b) \<and>
   (snd (slide_left b) \<noteq> b \<longrightarrow> fst (slide_left b) = merge_score 3 b \<and> fst (slide_left b) \<ge> 0)"
proof (cases b)
  case (Board r0 r1 r2 r3)
  have "snd (spec_slide_row r0) + snd (spec_slide_row r1)
        + snd (spec_slide_row r2) + snd (spec_slide_row r3) \<ge> 0"
    using spec_slide_row_nonneg [of r0] spec_slide_row_nonneg [of r1]
      spec_slide_row_nonneg [of r2] spec_slide_row_nonneg [of r3] by linarith
  then show ?thesis
    unfolding Board merge_score_left by (simp add: slide_left_def slide_left_loop_Board)
qed

text \<open>
  Claim C3. For every board (with ranks of the data model), a slide to the left, opcode 3,
  turns each row into the left-compaction of that row alone, as the specification describes
  it (\<open>spec_slide_row\<close>), and returns the sum of the scores of the four rows when the board
  has changed; the row [1,1,0,0] becomes [2,0,0,0] and adds 2^2 = 4 to the score.
\<close>

theorem slide_left_compacts_rows:
  "valid_board b \<Longrightarrow>
   map (get_row (snd (slide 3 b))) [0, 1, 2, 3] =
     map (\<lambda>r. fst (spec_slide_row (get_row b r))) [0, 1, 2, 3] \<and>
   fst (slide 3 b) =
     (if snd (slide 3 b) \<noteq> b
      then sum_list (map (\<lambda>r. snd (spec_slide_row (get_row b r))) [0, 1, 2, 3]) else - 1) \<and>
   slide_row (Row 1 1 0 0) score = (Row 2 0 0 0, score + 2 ^ 2)"
proof (cases b)
  case (Board r0 r1 r2 r3)
  have "slide_row (Row 1 1 0 0) score = (Row 2 0 0 0, score + 2 ^ 2)"
    by (simp add: slide_row_spec spec_slide_row_def list_of_row_def row_of_list_def)
  moreover have "slide 3 b = slide_left b" by (simp add: slide_def)
  ultimately show ?thesis
    unfolding Board by (simp add: slide_left_def slide_left_loop_Board)
qed

theorem slide_left_compacts_rows_witness:
  "valid_board (Board (Row 1 1 0 0) (Row 0 0 0 0) (Row 0 3 0 3) (Row 2 0 0 1)) \<and>
   slide 3 (Board (Row 1 1 0 0) (Row 0 0 0 0) (Row 0 3 0 3) (Row 2 0 0 1)) =
     (20, Board (Row 2 0 0 0) (Row 0 0 0 0) (Row 4 0 0 0) (Row 2 1 0 0))"
proof -
  let ?b = "Board (Row 1 1 0 0) (Row 0 0 0 0) (Row 0 3 0 3) (Row 2 0 0 1)"
  have v: "valid_board ?b" by (simp add: valid_board_def valid_row_def)
  obtain r0 r1 r2 r3 where s: "snd (slide 3 ?b) = Board r0 r1 r2 r3"
    by (cases "snd (slide 3 ?b)")
  from slide_left_compacts_rows [OF v, of 0]
  have rows: "map (get_row (snd (slide 3 ?b))) [0, 1, 2, 3] =
                [Row 2 0 0 0, Row 0 0 0 0, Row 4 0 0 0, Row 2 1 0 0]"
    and score: "fst (slide 3 ?b) = (if snd (slide 3 ?b) \<noteq> ?b then 20 else - 1)"
    by (simp_all add: spec_slide_row_def list_of_row_def row_of_list_def)
  from rows have b': "snd (slide 3 ?b) = Board (Row 2 0 0 0) (Row 0 0 0 0) (Row 4 0 0 0) (Row 2 1 0 0)"
    unfolding s by simp
  with score have "fst (slide 3 ?b) = 20" by simp
  with b' v show ?thesis by (simp add: prod_eq_iff)
qed

section \<open>Legal and illegal slides: claim C4\<close>

lemma reflect_horizontal_involution: "reflect_horizontal (reflect_horizontal b) = b"
  by (rule board_exhaust [of b]) (simp add: reflect_horizontal_Board)

lemma rotate_ccw_cw: "rotate_counterclockwise (rotate_clockwise b) = b"
  by (rule board_exhaust [of b])
     (simp add: rotate_clockwise_def rotate_counterclockwise_def reflect_horizontal_Board
        reflect_vertical_Board transpose_b_Board)

lemma rotate_cw_ccw: "rotate_clockwise (rotate_counterclockwise b) = b"
  by (rule board_exhaust [of b])
     (simp add: rotate_clockwise_def rotate_counterclockwise_def reflect_horizontal_Board
        reflect_vertical_Board transpose_b_Board)

lemma lines_Board:
  "rows_of (Board (Row a0 a1 a2 a3) (Row b0 b1 b2 b3) (Row c0 c1 c2 c3) (Row d0 d1 d2 d3)) =
     [[a0, a1, a2, a3], [b0, b1, b2, b3], [c0, c1, c2, c3], [d0, d1, d2, d3]]"
  "columns_of (Board (Row a0 a1 a2 a3) (Row b0 b1 b2 b3) (Row c0 c1 c2 c3) (Row d0 d1 d2 d3)) =
     [[a0, b0, c0, d0], [a1, b1, c1, d1], [a2, b2, c2, d2], [a3, b3, c3, d3]]"
  by (simp_all add: rows_of_def columns_of_def tile_get_def)

lemma merge_score_right: "merge_score 1 b = merge_score 3 (reflect_horizontal b)"
  by (rule board_exhaust [of b])
     (simp add: reflect_horizontal_Board merge_score_def lines_toward_def lines_Board
        del: compact_merge.simps)

lemma merge_score_down: "merge_score 2 b = merge_score 3 (rotate_clockwise b)"
  by (rule board_exhaust [of b])
     (simp add: rotate_clockwise_def reflect_horizontal_Board transpose_b_Board merge_score_def
        lines_toward_def lines_Board del: compact_merge.simps)

lemma merge_score_up: "merge_score 0 b = merge_score 1 (rotate_clockwise b)"
  by (rule board_exhaust [of b])
     (simp add: rotate_clockwise_def reflect_horizontal_Board transpose_b_Board merge_score_def
        lines_toward_def lines_Board del: compact_merge.simps)

text \<open>
  A slide that transforms the board, runs another slide and transforms back with the
  inverse keeps the two properties of the inner slide.
\<close>

lemma transformed_slide_props:
  fixes sl :: "board \<Rightarrow> int \<times> board" and f g :: "board \<Rightarrow> board" and m :: int
  assumes inv1: "\<And>x. g (f x) = x" and inv2: "\<And>x. f (g x) = x"
    and sl: "(fst (sl (f b)) = - 1 \<longleftrightarrow> snd (sl (f b)) = f b) \<and>
             (snd (sl (f b)) \<noteq> f b \<longrightarrow> fst (sl (f b)) = m \<and> fst (sl (f b)) \<ge> 0)"
  shows "(fst (case sl (f b) of (score, b') \<Rightarrow> (score, g b')) = - 1 \<longleftrightarrow>
          snd (case sl (f b) of (score, b') \<Rightarrow> (score, g b')) = b) \<and>
         (snd (case sl (f b) of (score, b') \<Rightarrow> (score, g b')) \<noteq> b \<longrightarrow>
          fst (case sl (f b) of (score, b') \<Rightarrow> (score, g b')) = m \<and>
          fst (case sl (f b) of (score, b') \<Rightarrow> (score, g b')) \<ge> 0)"
proof -
  obtain s b' where eq: "sl (f b) = (s, b')" by (cases "sl (f b)")
  have "g b' = b \<longleftrightarrow> b' = f b" using inv1 inv2 by metis
  with sl show ?thesis by (auto simp: eq)
qed

lemma slide_right_props:
  "(fst (slide_right b) = - 1 \<longleftrightarrow> snd (slide_right b) = b) \<and>
   (snd (slide_right b) \<noteq> b \<longrightarrow>
      fst (slide_right b) = merge_score 1 b \<and> fst (slide_right b) \<ge> 0)"
  unfolding slide_right_def merge_score_right
  by (rule transformed_slide_props [where sl = slide_left and f = reflect_horizontal
        and g = reflect_horizontal])
     (rule reflect_horizontal_involution, rule reflect_horizontal_involution,
      rule slide_left_props)

lemma slide_down_props:
  "(fst (slide_down b) = - 1 \<longleftrightarrow> snd (slide_down b) = b) \<and>
   (snd (slide_down b) \<noteq> b \<longrightarrow>
      fst (slide_down b) = merge_score 2 b \<and> fst (slide_down b) \<ge> 0)"
  unfolding slide_down_def merge_score_down
  by (rule transformed_slide_props [where sl = slide_left and f = rotate_clockwise
        and g = rotate_counterclockwise])
     (rule rotate_ccw_cw, rule rotate_cw_ccw, rule slide_left_props)

lemma slide_up_props:
  "(fst (slide_up b) = - 1 \<longleftrightarrow> snd (slide_up b) = b) \<and>
   (snd (slide_up b) \<noteq> b \<longrightarrow>
      fst (slide_up b) = merge_score 0 b \<and> fst (slide_up b) \<ge> 0)"
  unfolding slide_up_def merge_score_up
  by (rule transformed_slide_props [where sl = slide_right and f = rotate_clockwise
        and g = rotate_counterclockwise])
     (rule rotate_ccw_cw, rule rotate_cw_ccw, rule slide_right_props)

text \<open>
  Claim C4. For every board (with ranks of the data model) and every opcode, the slide
  returns the sentinel -1 exactly when the board after the call equals the board before it;
  when the board has changed, the result is the total merge score of the slide in that
  direction (the sum of the scores of the four lines compacted towards that edge), which is
  not negative.
\<close>

theorem slide_illegal_iff_unchanged:
  "valid_board b \<Longrightarrow>
   (fst (slide opc b) = - 1 \<longleftrightarrow> snd (slide opc b) = b) \<and>
   (snd (slide opc b) \<noteq> b \<longrightarrow>
      fst (slide opc b) = merge_score (opc mod 4) b \<and> fst (slide opc b) \<ge> 0)"
proof -
  consider "opc mod 4 = 0" | "opc mod 4 = 1" | "opc mod 4 = 2" | "opc mod 4 = 3" by arith
  then show ?thesis
  proof cases
    case 1
    then have "slide opc b = slide_up b" by (simp add: slide_def)
    then show ?thesis using slide_up_props [of b] 1 by auto
  next
    case 2
    then have "slide opc b = slide_right b" by (simp add: slide_def)
    then show ?thesis using slide_right_props [of b] 2 by auto
  next
    case 3
    then have "slide opc b = slide_down b" by (simp add: slide_def)
    then show ?thesis using slide_down_props [of b] 3 by auto
  next
    case 4
    then have "slide opc b = slide_left b" by (simp add: slide_def)
    then show ?thesis using slide_left_props [of b] 4 by auto
  qed
qed

lemmas slide_eval =
  slide_def slide_up_def slide_right_def slide_down_def slide_left_def slide_left_loop_Board
  rotate_clockwise_def rotate_counterclockwise_def reflect_horizontal_Board
  reflect_vertical_Board transpose_b_Board spec_slide_row_def list_of_row_def row_of_list_def

theorem slide_illegal_iff_unchanged_witness:
  "valid_board (Board (Row 1 0 0 0) (Row 1 0 0 0) (Row 2 0 0 0) (Row 0 0 0 0)) \<and>
   slide 3 (Board (Row 1 0 0 0) (Row 1 0 0 0) (Row 2 0 0 0) (Row 0 0 0 0)) =
     (- 1, Board (Row 1 0 0 0) (Row 1 0 0 0) (Row 2 0 0 0) (Row 0 0 0 0)) \<and>
   slide 0 (Board (Row 1 0 0 0) (Row 1 0 0 0) (Row 2 0 0 0) (Row 0 0 0 0)) =
     (4, Board (Row 2 0 0 0) (Row 2 0 0 0) (Row 0 0 0 0) (Row 0 0 0 0))"
proof -
  let ?b = "Board (Row 1 0 0 0) (Row 1 0 0 0) (Row 2 0 0 0) (Row 0 0 0 0)"
  have v: "valid_board ?b" by (simp add: valid_board_def valid_row_def)
  have left: "snd (slide 3 ?b) = ?b" by (simp add: slide_eval)
  have up: "snd (slide 0 ?b) = Board (Row 2 0 0 0) (Row 2 0 0 0) (Row 0 0 0 0) (Row 0 0 0 0)"
    by (simp add: slide_eval)
  have m: "merge_score 0 ?b = 4" by (simp add: merge_score_def lines_toward_def lines_Board)
  from slide_illegal_iff_unchanged [OF v, of 3] left have "fst (slide 3 ?b) = - 1" by simp
  moreover from slide_illegal_iff_unchanged [OF v, of 0] up m have "fst (slide 0 ?b) = 4" by simp
  ultimately show ?thesis using v left up by (simp add: prod_eq_iff)
qed

section \<open>Cell counts: claim C9\<close>

lemma nonzero_cells_rows:
  "nonzero_cells (Board r0 r1 r2 r3) =
     nonzero_in_row r0 + nonzero_in_row r1 + nonzero_in_row r2 + nonzero_in_row r3"
proof -
  obtain a0 a1 a2 a3 b0 b1 b2 b3 c0 c1 c2 c3 d0 d1 d2 d3 where
    *: "Board r0 r1 r2 r3 =
        Board (Row a0 a1 a2 a3) (Row b0 b1 b2 b3) (Row c0 c1 c2 c3) (Row d0 d1 d2 d3)"
    by (rule board_exhaust)
  have "nonzero_cells (Board r0 r1 r2 r3) =
        length (filter (\<lambda>x. x \<noteq> 0) (map (cell_at (Board r0 r1 r2 r3)) positions))"
    by (simp add: nonzero_cells_def filter_map o_def)
  also have "\<dots> = length (filter (\<lambda>x. x \<noteq> 0)
      ([a0, a1, a2, a3] @ [b0, b1, b2, b3] @ [c0, c1, c2, c3] @ [d0, d1, d2, d3]))"
    unfolding * cell_at_Board by simp
  also have "\<dots> = nonzero_in_row (Row a0 a1 a2 a3) + nonzero_in_row (Row b0 b1 b2 b3)
      + nonzero_in_row (Row c0 c1 c2 c3) + nonzero_in_row (Row d0 d1 d2 d3)"
    unfolding filter_append length_append nonzero_in_row_def list_of_row_def by simp
  finally show ?thesis using * by simp
qed

text \<open>Compaction flushes at most one tile per nonzero cell, plus the tile held at the start.\<close>

lemma compact_merge_length:
  "length (fst (compact_merge h l)) \<le>
     (case h of None \<Rightarrow> 0 | Some _ \<Rightarrow> 1) + length (filter (\<lambda>x. x \<noteq> 0) l)"
  by (induction h l rule: compact_merge.induct) (auto split: prod.splits option.splits)

lemma nonzero_row_of_list:
  "nonzero_in_row (row_of_list (out @ [0, 0, 0, 0])) \<le> length out"
  by (cases out; cases "tl out"; cases "tl (tl out)"; cases "tl (tl (tl out))")
     (simp_all add: nonzero_in_row_def row_of_list_def list_of_row_def)

lemma nonzero_in_row_slide: "nonzero_in_row (fst (spec_slide_row r)) \<le> nonzero_in_row r"
proof -
  obtain out s where cm: "compact_merge None (list_of_row r) = (out, s)"
    by (cases "compact_merge None (list_of_row r)")
  have "nonzero_in_row (fst (spec_slide_row r)) \<le> length out"
    by (simp add: spec_slide_row_def cm nonzero_row_of_list)
  also have "\<dots> \<le> nonzero_in_row r"
    using compact_merge_length [of None "list_of_row r"] by (simp add: cm nonzero_in_row_def)
  finally show ?thesis .
qed

lemma nonzero_in_row_Row:
  "nonzero_in_row (Row a b c d) =
     of_bool (a \<noteq> 0) + of_bool (b \<noteq> 0) + of_bool (c \<noteq> 0) + of_bool (d \<noteq> 0)"
  by (simp add: nonzero_in_row_def list_of_row_def)

lemma nonzero_cells_reflect_horizontal: "nonzero_cells (reflect_horizontal b) = nonzero_cells b"
  by (rule board_exhaust [of b])
     (simp add: reflect_horizontal_Board nonzero_cells_rows nonzero_in_row_Row)

lemma nonzero_cells_rotate_clockwise: "nonzero_cells (rotate_clockwise b) = nonzero_cells b"
  by (rule board_exhaust [of b])
     (simp add: rotate_clockwise_def transpose_b_Board reflect_horizontal_Board
        nonzero_cells_rows nonzero_in_row_Row)

lemma nonzero_cells_rotate_counterclockwise:
  "nonzero_cells (rotate_counterclockwise b) = nonzero_cells b"
  by (rule board_exhaust [of b])
     (simp add: rotate_counterclockwise_def transpose_b_Board reflect_vertical_Board
        nonzero_cells_rows nonzero_in_row_Row)

lemma nonzero_cells_slide_left: "nonzero_cells (snd (slide_left b)) \<le> nonzero_cells b"
proof (cases b)
  case (Board r0 r1 r2 r3)
  show ?thesis
    unfolding Board
    using nonzero_in_row_slide [of r0] nonzero_in_row_slide [of r1]
      nonzero_in_row_slide [of r2] nonzero_in_row_slide [of r3]
    by (simp add: slide_left_def slide_left_loop_Board nonzero_cells_rows)
qed

lemma nonzero_cells_slide_right: "nonzero_cells (snd (slide_right b)) \<le> nonzero_cells b"
  using nonzero_cells_slide_left [of "reflect_horizontal b"]
  by (simp add: slide_right_def split_beta nonzero_cells_reflect_horizontal)

lemma nonzero_cells_slide_down: "nonzero_cells (snd (slide_down b)) \<le> nonzero_cells b"
  using nonzero_cells_slide_left [of "rotate_clockwise b"]
  by (simp add: slide_down_def split_beta nonzero_cells_rotate_clockwise
        nonzero_cells_rotate_counterclockwise)

lemma nonzero_cells_slide_up: "nonzero_cells (snd (slide_up b)) \<le> nonzero_cells b"
  using nonzero_cells_slide_right [of "rotate_clockwise b"]
  by (simp add: slide_up_def split_beta nonzero_cells_rotate_clockwise
        nonzero_cells_rotate_counterclockwise)

lemma nonzero_cells_slide: "nonzero_cells (snd (slide opc b)) \<le> nonzero_cells b"
  by (simp add: slide_def Let_def nonzero_cells_slide_left nonzero_cells_slide_right
        nonzero_cells_slide_up nonzero_cells_slide_down)

lemma row_get_row_set:
  "c < 4 \<Longrightarrow> c' < 4 \<Longrightarrow> row_get (row_set r c v) c' = (if c' = c then v else row_get r c')"
  by (cases r) auto

lemma get_row_set_row:
  "r < 4 \<Longrightarrow> r' < 4 \<Longrightarrow> get_row (set_row b r v) r' = (if r' = r then v else get_row b r')"
  by (cases b) auto

lemma cell_at_set_at:
  assumes "pos < 16" "i < 16"
  shows "cell_at (set_at b pos v) i = (if i = pos then v else cell_at b i)"
proof -
  have d: "pos div 4 < 4" "i div 4 < 4" "pos mod 4 < 4" "i mod 4 < 4" using assms by auto
  have e: "i = pos \<longleftrightarrow> i div 4 = pos div 4 \<and> i mod 4 = pos mod 4"
    by (metis div_mult_mod_eq)
  show ?thesis
    unfolding cell_at_def set_at_def tile_get_def tile_set_def e
    using d by (simp add: row_get_row_set get_row_set_row)
qed

lemma changed_cells_place:
  assumes "place pos tile b = (0, b')"
  shows "length (changed_cells b b') \<le> 1"
proof -
  from assms have pos: "pos < 16" and b': "b' = set_at b pos tile"
    by (auto simp: place_def split: if_splits)
  have "changed_cells b b' =
        filter (\<lambda>i. cell_at b i \<noteq> cell_at (set_at b pos tile) i) positions"
    by (simp add: changed_cells_def b')
  also have "\<dots> = filter (\<lambda>i. i = pos \<and> cell_at b pos \<noteq> tile) positions"
    by (rule filter_cong) (auto simp: positions_upt cell_at_set_at pos)
  finally have "set (changed_cells b b') \<subseteq> {pos}" by auto
  moreover have "distinct (changed_cells b b')" by (simp add: changed_cells_def positions_upt)
  ultimately have "card (set (changed_cells b b')) \<le> card {pos}" by (intro card_mono) auto
  then show ?thesis using \<open>distinct (changed_cells b b')\<close> by (simp add: distinct_card)
qed

text \<open>
  Claim C9. For every board (with ranks of the data model) and every opcode, the board after
  a slide has at most as many nonzero cells as the board before it; and when \<open>place\<close> succeeds
  (returns 0), at most one of the sixteen cells has changed its value.
\<close>

theorem slide_and_place_cell_counts:
  "(valid_board b \<longrightarrow> nonzero_cells (snd (slide opc b)) \<le> nonzero_cells b) \<and>
   (place pos tile b = (0, b') \<longrightarrow> length (changed_cells b b') \<le> 1)"
  using nonzero_cells_slide [of opc b] changed_cells_place [of pos tile b b'] by blast

theorem slide_and_place_cell_counts_witness:
  "valid_board (Board (Row 1 0 0 0) (Row 1 0 0 0) (Row 2 0 0 0) (Row 0 0 0 0)) \<and>
   nonzero_cells (snd (slide 0 (Board (Row 1 0 0 0) (Row 1 0 0 0) (Row 2 0 0 0) (Row 0 0 0 0))))
     \<le> nonzero_cells (Board (Row 1 0 0 0) (Row 1 0 0 0) (Row 2 0 0 0) (Row 0 0 0 0)) \<and>
   place 6 2 (Board (Row 1 0 0 0) (Row 1 0 0 0) (Row 2 0 0 0) (Row 0 0 0 0)) =
     (0, Board (Row 1 0 0 0) (Row 1 0 2 0) (Row 2 0 0 0) (Row 0 0 0 0)) \<and>
   length (changed_cells (Board (Row 1 0 0 0) (Row 1 0 0 0) (Row 2 0 0 0) (Row 0 0 0 0))
             (Board (Row 1 0 0 0) (Row 1 0 2 0) (Row 2 0 0 0) (Row 0 0 0 0))) \<le> 1"
proof -
  let ?b = "Board (Row 1 0 0 0) (Row 1 0 0 0) (Row 2 0 0 0) (Row 0 0 0 0)"
  let ?b' = "Board (Row 1 0 0 0) (Row 1 0 2 0) (Row 2 0 0 0) (Row 0 0 0 0)"
  have v: "valid_board ?b" by (simp add: valid_board_def valid_row_def)
  have pl: "place 6 2 ?b = (0, ?b')"
    by (simp add: place_def cell_at_def set_at_def tile_get_def tile_set_def)
  from slide_and_place_cell_counts [of ?b 0 6 2 ?b'] v pl show ?thesis by simp
qed

section \<open>The agent's transforms are the board's\<close>

lemma mirror_horizontal_eq: "mirror_horizontal b = reflect_horizontal b"
  by (rule board_exhaust [of b])
     (simp add: reflect_horizontal_Board mirror_horizontal_def swap_at_def cell_at_def set_at_def
        tile_get_def tile_set_def)

lemma mirror_vertical_eq: "mirror_vertical b = reflect_vertical b"
  by (rule board_exhaust [of b])
     (simp add: reflect_vertical_Board mirror_vertical_def swap_at_def cell_at_def set_at_def
        tile_get_def tile_set_def)

lemma transpose_board_eq: "transpose_board b = transpose_b b"
  by (rule board_exhaust [of b])
     (simp add: transpose_b_Board transpose_board_def swap_at_def cell_at_def set_at_def
        tile_get_def tile_set_def upt_rec)

lemma upt_4: "[0..<4] = [0, 1, 2, 3]"
  by (simp add: upt_rec)

section \<open>The weight update: claim C5\<close>















section \<open>The final update: claim C2\<close>

lemma final_td_loop_calls_append:
  "final_td_loop (\<lambda>st e calls. calls @ [(st, e)]) lam ep k e acc =
   acc @ final_td_loop (\<lambda>st e calls. calls @ [(st, e)]) lam ep k e []"
proof (induction k arbitrary: e acc)
  case 0
  show ?case by simp
next
  case (Suc k)
  show ?case
    by (simp add: Let_def Suc.IH [of _ "acc @ [_]"] Suc.IH [of _ "[_]"])
qed

text \<open>The loop with any update is the fold of that update over the recorded calls.\<close>

lemma final_td_loop_fold:
  "final_td_loop upd lam ep k e s =
   fold (\<lambda>(st, e). upd st e)
     (final_td_loop (\<lambda>st e calls. calls @ [(st, e)]) lam ep k e []) s"
proof (induction k arbitrary: e s)
  case 0
  show ?case by simp
next
  case (Suc k)
  show ?case
    by (simp add: Let_def Suc.IH [of _ "upd _ _ s"] final_td_loop_calls_append [of _ _ _ _ "[_]"])
qed

lemma final_td_loop_carried:
  assumes "k \<le> length ep"
  shows "final_td_loop (\<lambda>st e calls. calls @ [(st, e)]) lam ep k
           (carried_error lam ep e0 (length ep - k)) acc =
         acc @ map (\<lambda>d. (state (ep ! (length ep - 1 - d)), carried_error lam ep e0 d * lam ^ d))
                 [length ep - k ..< length ep]"
  using assms
proof (induction k arbitrary: acc)
  case 0
  show ?case by simp
next
  case (Suc k)
  let ?n = "length ep"
  let ?f = "\<lambda>d. (state (ep ! (?n - 1 - d)), carried_error lam ep e0 d * lam ^ d)"
  let ?log = "\<lambda>st e calls. calls @ [(st, e)]"
  from Suc.prems have k: "k < ?n" by simp
  have idx: "?n - 1 - k = ?n - Suc k" "?n - 1 - (?n - Suc k) = k" "?n - Suc (?n - Suc k) = k"
    using k by simp_all
  have next_e: "carried_error lam ep e0 (?n - k) =
      real_of_int (reward (ep ! k)) + lam * carried_error lam ep e0 (?n - Suc k)"
  proof -
    have "?n - k = Suc (?n - Suc k)" using k by simp
    then show ?thesis using idx by simp
  qed
  have upt: "[?n - Suc k ..< ?n] = (?n - Suc k) # [?n - k ..< ?n]"
    using k by (simp add: upt_conv_Cons Suc_diff_Suc)
  have "final_td_loop ?log lam ep (Suc k) (carried_error lam ep e0 (?n - Suc k)) acc =
        final_td_loop ?log lam ep k
          (if k > 0
           then real_of_int (reward (ep ! k)) + lam * carried_error lam ep e0 (?n - Suc k)
           else carried_error lam ep e0 (?n - Suc k))
          (acc @ [?f (?n - Suc k)])"
    by (simp add: Let_def idx)
  also have "\<dots> = final_td_loop ?log lam ep k (carried_error lam ep e0 (?n - k))
                      (acc @ [?f (?n - Suc k)])"
  proof (cases "k > 0")
    case True
    then show ?thesis by (simp add: next_e)
  next
    case False
    then show ?thesis by simp
  qed
  also have "\<dots> = (acc @ [?f (?n - Suc k)]) @ map ?f [?n - k ..< ?n]"
    using Suc.IH [of "acc @ [?f (?n - Suc k)]"] k by simp
  finally show ?case by (simp add: upt)
qed

text \<open>
  Claim C2, as stated, fails: with two steps, lambda = 1/2, final reward 1000, value estimate
  0 and reward 4 at the last step, the error applied at the first step (distance 1 from the
  end) is (4 + 1000 / 2) / 2 = 252, not (1000 - 0) * (1/2)^1 = 500.
\<close>

theorem final_update_formula_counterexample:
  "final_update_calls ''lose'' (1 / 2) two_steps =
     [(Board (Row 1 1 0 1) (Row 0 0 0 0) (Row 0 0 0 0) (Row 0 0 0 0), 1000),
      (Board (Row 1 0 0 0) (Row 0 0 0 0) (Row 0 0 0 0) (Row 0 0 0 1), 252)] \<and>
   snd (final_update_calls ''lose'' (1 / 2) two_steps ! 1) \<noteq>
     (calculate_final_reward ''lose'' two_steps - evaluation (last two_steps)) * (1 / 2) ^ 1"
  by (simp add: two_steps_def final_update_calls_def calculate_final_reward_def Let_def
      count_tile_value_def max_tile_value_def positions_def cell_at_def tile_get_def)

text \<open>
  Claim C2, amended. When the trajectory is not empty, the final update calls the weight
  update once per step, from the last step to the first; the error applied at the step at
  distance \<open>d\<close> from the end is the carried error of that step times lambda^d, where the
  carried error starts as the final reward minus the last step's recorded value estimate
  and, from one step to the step before it, becomes that step's reward plus lambda times
  itself (\<open>carried_error\<close>). So the error applied at the last step, the first call, is
  (final reward - last value estimate) * lambda^0. The agent after the update is the agent's
  weight update folded over these calls.
\<close>

theorem final_update_applies_carried_error:
  "current_episode ag \<noteq> [] \<Longrightarrow>
   final_update_calls flag (lambda ag) (current_episode ag) =
     map (\<lambda>d. (state (current_episode ag ! (length (current_episode ag) - 1 - d)),
                carried_error (lambda ag) (current_episode ag)
                  (calculate_final_reward flag (current_episode ag)
                   - evaluation (last (current_episode ag))) d
                * lambda ag ^ d))
       [0 ..< length (current_episode ag)] \<and>
   final_update_calls flag (lambda ag) (current_episode ag) ! 0 =
     (state (last (current_episode ag)),
      (calculate_final_reward flag (current_episode ag) - evaluation (last (current_episode ag)))
      * lambda ag ^ 0) \<and>
   perform_final_td_update flag ag =
     fold (\<lambda>(st, e). update_weights_with_td_error st e)
       (final_update_calls flag (lambda ag) (current_episode ag)) ag"
proof -
  assume ne: "current_episode ag \<noteq> []"
  let ?ep = "current_episode ag"
  let ?e0 = "calculate_final_reward flag ?ep - evaluation (last ?ep)"
  let ?f = "\<lambda>d. (state (?ep ! (length ?ep - 1 - d)),
                 carried_error (lambda ag) ?ep ?e0 d * lambda ag ^ d)"
  have calls: "final_update_calls flag (lambda ag) ?ep = map ?f [0 ..< length ?ep]"
    using ne final_td_loop_carried [of "length ?ep" ?ep "lambda ag" ?e0 "[]"]
    by (simp add: final_update_calls_def Let_def)
  have "map ?f [0 ..< length ?ep] ! 0 = ?f 0"
    using ne by (simp del: upt_Suc)
  then have first: "final_update_calls flag (lambda ag) ?ep ! 0 = (state (last ?ep), ?e0 * lambda ag ^ 0)"
    using ne by (simp add: calls last_conv_nth del: upt_Suc)
  have upd: "perform_final_td_update flag ag =
      fold (\<lambda>(st, e). update_weights_with_td_error st e)
        (final_update_calls flag (lambda ag) ?ep) ag"
    using ne final_td_loop_fold [of update_weights_with_td_error "lambda ag" ?ep "length ?ep" ?e0 ag]
    by (simp add: final_update_calls_def perform_final_td_update_def Let_def)
  from calls first upd show ?thesis by blast
qed

theorem final_update_applies_carried_error_witness:
  "current_episode fresh_learner \<noteq> [] \<and>
   final_update_calls ''lose'' (lambda fresh_learner) (current_episode fresh_learner) =
     [(Board (Row 1 1 0 1) (Row 0 0 0 0) (Row 0 0 0 0) (Row 0 0 0 0), 1000 * (1 / 2) ^ 0),
      (Board (Row 1 0 0 0) (Row 0 0 0 0) (Row 0 0 0 0) (Row 0 0 0 1),
       (4 + 1 / 2 * 1000) * (1 / 2) ^ 1)] \<and>
   final_update_calls ''lose'' (lambda fresh_learner) (current_episode fresh_learner) ! 0 =
     (Board (Row 1 1 0 1) (Row 0 0 0 0) (Row 0 0 0 0) (Row 0 0 0 0), (1000 - 0) * (1 / 2) ^ 0) \<and>
   perform_final_td_update ''lose'' fresh_learner =
     fold (\<lambda>(st, e). update_weights_with_td_error st e)
       (final_update_calls ''lose'' (lambda fresh_learner) (current_episode fresh_learner))
       fresh_learner"
proof -
  have ne: "current_episode fresh_learner \<noteq> []"
    by (simp add: fresh_learner_def two_steps_def)
  have r: "calculate_final_reward ''lose'' two_steps = 1000"
    by (simp add: two_steps_def calculate_final_reward_def Let_def
        count_tile_value_def max_tile_value_def positions_def cell_at_def tile_get_def)
  have l: "[0 ..< length two_steps] = [0, Suc 0]"
    by (simp add: two_steps_def upt_rec)
  have ep: "current_episode fresh_learner = two_steps" "lambda fresh_learner = 1 / 2"
    by (simp_all add: fresh_learner_def)
  from final_update_applies_carried_error [OF ne, of "''lose''"]
  have calls: "final_update_calls ''lose'' (1 / 2) two_steps =
      [(Board (Row 1 1 0 1) (Row 0 0 0 0) (Row 0 0 0 0) (Row 0 0 0 0), 1000),
       (Board (Row 1 0 0 0) (Row 0 0 0 0) (Row 0 0 0 0) (Row 0 0 0 1), 252)]"
    and first: "final_update_calls ''lose'' (1 / 2) two_steps ! 0 =
      (Board (Row 1 1 0 1) (Row 0 0 0 0) (Row 0 0 0 0) (Row 0 0 0 0), 1000)"
    and upd: "perform_final_td_update ''lose'' fresh_learner =
      fold (\<lambda>(st, e). update_weights_with_td_error st e)
        (final_update_calls ''lose'' (lambda fresh_learner) (current_episode fresh_learner))
        fresh_learner"
    unfolding ep l r by (simp_all add: two_steps_def)
  from ne calls first upd show ?thesis by (simp add: ep)
qed

section \<open>The variants evaluated: claim C1\<close>

lemma evaluated_variants_Board:
  "evaluated_variants
     (Board (Row a0 a1 a2 a3) (Row b0 b1 b2 b3) (Row c0 c1 c2 c3) (Row d0 d1 d2 d3)) =
   [Board (Row a0 a1 a2 a3) (Row b0 b1 b2 b3) (Row c0 c1 c2 c3) (Row d0 d1 d2 d3),
    Board (Row a3 a2 a1 a0) (Row b3 b2 b1 b0) (Row c3 c2 c1 c0) (Row d3 d2 d1 d0),
    Board (Row d0 d1 d2 d3) (Row c0 c1 c2 c3) (Row b0 b1 b2 b3) (Row a0 a1 a2 a3),
    Board (Row a0 b0 c0 d0) (Row a1 b1 c1 d1) (Row a2 b2 c2 d2) (Row a3 b3 c3 d3),
    Board (Row d0 c0 b0 a0) (Row d1 c1 b1 a1) (Row d2 c2 b2 a2) (Row d3 c3 b3 a3),
    Board (Row d3 c3 b3 a3) (Row d2 c2 b2 a2) (Row d1 c1 b1 a1) (Row d0 c0 b0 a0),
    Board (Row d3 d2 d1 d0) (Row c3 c2 c1 c0) (Row b3 b2 b1 b0) (Row a3 a2 a1 a0),
    Board (Row d0 d1 d2 d3) (Row c0 c1 c2 c3) (Row b0 b1 b2 b3) (Row a0 a1 a2 a3)]"
  by (simp add: evaluated_variants_def Let_def mirror_horizontal_eq mirror_vertical_eq
      transpose_board_eq reflect_horizontal_Board reflect_vertical_Board transpose_b_Board)

lemma dihedral_variants_Board:
  "dihedral_variants
     (Board (Row a0 a1 a2 a3) (Row b0 b1 b2 b3) (Row c0 c1 c2 c3) (Row d0 d1 d2 d3)) =
   [Board (Row a0 a1 a2 a3) (Row b0 b1 b2 b3) (Row c0 c1 c2 c3) (Row d0 d1 d2 d3),
    Board (Row d0 c0 b0 a0) (Row d1 c1 b1 a1) (Row d2 c2 b2 a2) (Row d3 c3 b3 a3),
    Board (Row d3 d2 d1 d0) (Row c3 c2 c1 c0) (Row b3 b2 b1 b0) (Row a3 a2 a1 a0),
    Board (Row a3 b3 c3 d3) (Row a2 b2 c2 d2) (Row a1 b1 c1 d1) (Row a0 b0 c0 d0),
    Board (Row a3 a2 a1 a0) (Row b3 b2 b1 b0) (Row c3 c2 c1 c0) (Row d3 d2 d1 d0),
    Board (Row a0 b0 c0 d0) (Row a1 b1 c1 d1) (Row a2 b2 c2 d2) (Row a3 b3 c3 d3),
    Board (Row d0 d1 d2 d3) (Row c0 c1 c2 c3) (Row b0 b1 b2 b3) (Row a0 a1 a2 a3),
    Board (Row d3 c3 b3 a3) (Row d2 c2 b2 a2) (Row d1 c1 b1 a1) (Row d0 c0 b0 a0)]"
  by (simp add: dihedral_variants_def Let_def rotate_clockwise_def
      reflect_horizontal_Board transpose_b_Board)

text \<open>\<open>evaluate_board\<close> sums, per pattern, the table entries over \<open>evaluated_variants\<close>.\<close>

lemma evaluate_board_variants:
  "evaluate_board nt b =
     (if nt = [] then 0
      else fold (\<lambda>i value.
                   if length (nt ! i) = 0 then value
                   else value + sum_list (map (\<lambda>v. evaluate_pattern v (patterns ! i) (nt ! i))
                                            (evaluated_variants b)))
             [0 ..< min (length patterns) (length nt)] 0)"
proof -
  have "(value + evaluate_pattern b p w) + evaluate_isomorphic_patterns b p w =
        value + sum_list (map (\<lambda>v. evaluate_pattern v p w) (evaluated_variants b))"
    for "value" p w
    by (simp add: evaluate_isomorphic_patterns_def evaluated_variants_def Let_def)
  then show ?thesis by (simp only: evaluate_board_def)
qed

text \<open>
  Claim C1 fails on the code. For every board the eighth board evaluated is the third one
  again (the vertical mirror); on \<open>skew_board\<close>, whose eight dihedral images are distinct,
  the counterclockwise rotation is among the dihedral images and not among the boards
  evaluated, and with the tables \<open>probe_net\<close> the value returned is 20 (the entry 10 of the
  vertical mirror counted twice, the entry 1 of the missing rotation not at all) where the
  sum over the dihedral group is 11.
\<close>

theorem evaluate_board_repeats_vertical_mirror:
  "evaluated_variants b ! 7 = evaluated_variants b ! 2 \<and>
   evaluated_variants b ! 2 = reflect_vertical b \<and>
   distinct (dihedral_variants skew_board) \<and>
   \<not> distinct (evaluated_variants skew_board) \<and>
   rotate_counterclockwise skew_board \<in> set (dihedral_variants skew_board) \<and>
   rotate_counterclockwise skew_board \<notin> set (evaluated_variants skew_board) \<and>
   evaluate_board probe_net skew_board = 20 \<and>
   dihedral_evaluate probe_net skew_board = 11"
proof -
  have "evaluated_variants b ! 7 = evaluated_variants b ! 2"
    "evaluated_variants b ! 2 = reflect_vertical b"
    by (rule board_exhaust [of b], simp add: evaluated_variants_Board reflect_vertical_Board)+
  moreover have "distinct (dihedral_variants skew_board)"
    "\<not> distinct (evaluated_variants skew_board)"
    "rotate_counterclockwise skew_board \<in> set (dihedral_variants skew_board)"
    "rotate_counterclockwise skew_board \<notin> set (evaluated_variants skew_board)"
    by (simp_all add: skew_board_def dihedral_variants_Board evaluated_variants_Board
        rotate_counterclockwise_def reflect_vertical_Board transpose_b_Board)
  moreover have "evaluate_board probe_net skew_board = 20"
    by (simp add: evaluate_board_def probe_net_def skew_board_def patterns_def upt_4
        evaluate_isomorphic_patterns_def Let_def mirror_horizontal_eq mirror_vertical_eq
        transpose_board_eq reflect_horizontal_Board reflect_vertical_Board transpose_b_Board
        evaluate_pattern_def cell_at_def tile_get_def)
  moreover have "dihedral_evaluate probe_net skew_board = 11"
    by (simp add: dihedral_evaluate_def probe_net_def skew_board_def patterns_def upt_4
        dihedral_variants_Board evaluate_pattern_def Let_def cell_at_def tile_get_def)
  ultimately show ?thesis by blast
qed

end
